theory Spec2Isabelle
  imports Main
begin

section \<open>The application factory of flask\_app/app.py\<close>

text \<open>
  The repository is one module, \<^verbatim>\<open>flask_app/app.py\<close>:
  \<^verbatim>\<open>
  from flask import Flask, render_template

  def create_app():
      app = Flask(__name__, static_folder='static', template_folder='templates')

      @app.route('/')
      def index():
          return render_template('index.html')

      return app

  if __name__ == '__main__':
      app = create_app()
      app.run(host='0.0.0.0', port=5000, debug=True)
  \<close>
  The functions \<open>create_app\<close>, \<open>index\<close> and \<open>run_module\<close> below are this module, line by
  line. Everything else the module does is done by the Flask library it calls, which is
  not part of the repository. The library is modelled only as far as the module uses it
  (the constructor, \<^verbatim>\<open>route\<close>, \<^verbatim>\<open>render_template\<close>, request dispatch and \<^verbatim>\<open>run\<close>),
  after Flask's documented behaviour; what lies outside the process (the files on disk,
  the Jinja template engine, the texts of the error pages) is the parameter \<open>env\<close>.
\<close>

subsection \<open>Data\<close>

text \<open>The Python exceptions that can arise along the paths modelled here.\<close>

datatype exn =
    TemplateNotFound string
  | RenderError string
  | AssertionError
  | TypeError
  | RuntimeError
  | NotFound
  | MethodNotAllowed
  | RequestRedirect string

text \<open>
  A view function is a Python callable stored in the application object. Two callables
  occur: the closure \<^verbatim>\<open>index\<close> that \<open>create_app\<close> defines, and the method
  \<^verbatim>\<open>send_static_file\<close> that the Flask constructor binds to the endpoint \<^verbatim>\<open>static\<close>.
\<close>

datatype view_func = View_index | View_send_static_file

record url_rule =
  rule_str :: string
  endpoint :: string
  methods :: "string list"

text \<open>
  The Flask object: the constructor's arguments, the debug flag, the route table
  (\<^verbatim>\<open>url_map\<close>) and the endpoint dictionary (\<^verbatim>\<open>view_functions\<close>, in insertion order).
  \<open>static_folder\<close> and \<open>template_folder\<close> hold the folder names as they were passed,
  relative to the application's root directory.
\<close>

record flask_app =
  import_name :: string
  static_folder :: "string option"
  static_url_path :: "string option"
  template_folder :: "string option"
  debug :: bool
  url_map :: "url_rule list"
  view_functions :: "(string \<times> view_func) list"

record request =
  http_method :: string
  path :: string
  query_string :: string
  headers :: "(string \<times> string) list"
  data :: string

record response =
  status :: nat
  mimetype :: string
  body :: string

text \<open>
  What a template sees when it is rendered: the variables passed to
  \<^verbatim>\<open>render_template\<close> as keyword arguments, and the current request, which Flask adds
  to the context of every template under the name \<^verbatim>\<open>request\<close>.
\<close>

record template_context =
  ctx_request :: request
  ctx_vars :: "(string \<times> string) list"

text \<open>
  The world outside the process. \<open>files\<close> maps a path relative to the application's
  root directory to the content of the regular file there; \<open>jinja_render\<close> is the
  template engine, from a template's source and its context to the rendered text or the
  exception it raises; \<open>guess_type\<close> is the MIME type chosen for a file name;
  \<open>error_page\<close> is the body of the page sent with an error status.

  The engine is not sandboxed, and Flask hands every template the application's
  \<^verbatim>\<open>config\<close> besides the request, so that rendering a template can write to the
  application: \<open>template_writes\<close> is the application object that rendering a
  template's source leaves behind.
\<close>

record env =
  files :: "string \<Rightarrow> string option"
  jinja_render :: "string \<Rightarrow> template_context \<Rightarrow> exn + string"
  guess_type :: "string \<Rightarrow> string"
  error_page :: "nat \<Rightarrow> string"
  template_writes :: "string \<Rightarrow> template_context \<Rightarrow> flask_app \<Rightarrow> flask_app"

text \<open>
  The listening server that \<^verbatim>\<open>app.run\<close> starts, and the state of the process: the
  Flask objects that exist, addressed by their position, and the server if one was
  started. A reference is always one that \<open>Flask\<close> returned, so it is in range.
\<close>

record server =
  srv_app :: nat
  host :: string
  port :: nat
  use_debugger :: bool

record state =
  apps :: "flask_app list"
  listening :: "server option"

definition init_state :: state where
  "init_state = \<lparr>apps = [], listening = None\<rparr>"

subsection \<open>The Flask library, as far as the module calls it\<close>

definition basename :: "string \<Rightarrow> string" where
  "basename p = rev (takeWhile (\<lambda>c. c \<noteq> CHR ''/'') (rev p))"

definition default_methods :: "string list" where
  "default_methods = [''GET'', ''HEAD'', ''OPTIONS'']"

text \<open>
  \<^verbatim>\<open>Flask(import_name, static_folder=..., template_folder=...)\<close> allocates a new object.
  When a static folder is given, the constructor derives the URL prefix from the folder's
  base name and registers the route \<^verbatim>\<open><prefix>/<path:filename>\<close> under the endpoint
  \<^verbatim>\<open>static\<close>, served by \<^verbatim>\<open>send_static_file\<close>.
\<close>

definition Flask :: "string \<Rightarrow> string option \<Rightarrow> string option \<Rightarrow> state \<Rightarrow> nat \<times> state" where
  "Flask name sf tf s =
     (let url = map_option (\<lambda>d. ''/'' @ basename d) sf;
          app = \<lparr>import_name = name, static_folder = sf, static_url_path = url,
                 template_folder = tf, debug = False,
                 url_map = (case url of None \<Rightarrow> []
                    | Some p \<Rightarrow> [\<lparr>rule_str = p @ ''/<path:filename>'', endpoint = ''static'',
                                  methods = default_methods\<rparr>]),
                 view_functions = (case url of None \<Rightarrow> []
                    | Some p \<Rightarrow> [(''static'', View_send_static_file)])\<rparr>
      in (length (apps s), s\<lparr>apps := apps s @ [app]\<rparr>))"

text \<open>
  \<^verbatim>\<open>app.add_url_rule(rule, endpoint, view_func)\<close> appends the rule to the route table and
  binds the endpoint; it raises \<^verbatim>\<open>AssertionError\<close> when the endpoint is already bound
  to another function. \<^verbatim>\<open>@app.route(rule)\<close> on a function \<^verbatim>\<open>f\<close> is
  \<^verbatim>\<open>add_url_rule(rule, f.__name__, f)\<close> with the default methods.
\<close>

definition add_url_rule :: "nat \<Rightarrow> string \<Rightarrow> string \<Rightarrow> view_func \<Rightarrow> state \<Rightarrow> exn + state" where
  "add_url_rule r rl ep vf s =
     (let app = apps s ! r;
          rules = url_map app @ [\<lparr>rule_str = rl, endpoint = ep, methods = default_methods\<rparr>]
      in case map_of (view_functions app) ep of
           None \<Rightarrow> Inr (s\<lparr>apps := (apps s)[r := app\<lparr>url_map := rules,
                          view_functions := view_functions app @ [(ep, vf)]\<rparr>]\<rparr>)
         | Some old \<Rightarrow>
             if old = vf then Inr (s\<lparr>apps := (apps s)[r := app\<lparr>url_map := rules\<rparr>]\<rparr>)
             else Inl AssertionError)"

definition route :: "nat \<Rightarrow> string \<Rightarrow> string \<Rightarrow> view_func \<Rightarrow> state \<Rightarrow> exn + state" where
  "route r rl fname f s = add_url_rule r rl fname f s"

text \<open>
  \<^verbatim>\<open>render_template(name, **context)\<close> loads the template from the application's
  template folder and renders it with the keyword arguments and the current request;
  a missing template raises \<^verbatim>\<open>TemplateNotFound\<close>.
\<close>

definition render_template ::
  "env \<Rightarrow> flask_app \<Rightarrow> request \<Rightarrow> string \<Rightarrow> (string \<times> string) list \<Rightarrow> exn + string" where
  "render_template e app rq name kwargs =
     (case template_folder app of
        None \<Rightarrow> Inl (TemplateNotFound name)
      | Some d \<Rightarrow>
          (case files e (d @ ''/'' @ name) of
             None \<Rightarrow> Inl (TemplateNotFound name)
           | Some src \<Rightarrow> jinja_render e src \<lparr>ctx_request = rq, ctx_vars = kwargs\<rparr>))"

text \<open>
  The state that the call \<^verbatim>\<open>render_template(name, **context)\<close> leaves, for the
  application at reference \<open>r\<close>: what rendering the template wrote to the application,
  when the template was found; the state as it was, when not.
\<close>

definition render_template_writes ::
  "env \<Rightarrow> nat \<Rightarrow> request \<Rightarrow> string \<Rightarrow> (string \<times> string) list \<Rightarrow> state \<Rightarrow> state" where
  "render_template_writes e r rq name kwargs s =
     (case template_folder (apps s ! r) of
        None \<Rightarrow> s
      | Some d \<Rightarrow>
          (case files e (d @ ''/'' @ name) of
             None \<Rightarrow> s
           | Some src \<Rightarrow>
               s\<lparr>apps := (apps s)[r :=
                    template_writes e src \<lparr>ctx_request = rq, ctx_vars = kwargs\<rparr> (apps s ! r)]\<rparr>))"

text \<open>
  Python's \<^verbatim>\<open>str.split\<close> and \<^verbatim>\<open>str.join\<close> for the separator \<^verbatim>\<open>/\<close>, and
  \<^verbatim>\<open>posixpath.normpath\<close> for a path that does not begin with a slash (the router
  passes no other): empty components and \<^verbatim>\<open>.\<close> are dropped, \<^verbatim>\<open>..\<close> removes the
  component before it, or stays when there is none to remove.
\<close>

fun split_slash :: "string \<Rightarrow> string list" where
  "split_slash [] = [[]]"
| "split_slash (c # cs) =
     (if c = CHR ''/'' then [] # split_slash cs
      else (case split_slash cs of
              [] \<Rightarrow> [[c]]
            | w # ws \<Rightarrow> (c # w) # ws))"

fun join_slash :: "string list \<Rightarrow> string" where
  "join_slash [] = []"
| "join_slash [w] = w"
| "join_slash (w # ws) = w @ ''/'' @ join_slash ws"

fun norm_comps :: "string list \<Rightarrow> string list \<Rightarrow> string list" where
  "norm_comps new_comps [] = new_comps"
| "norm_comps new_comps (part # parts) =
     (if part = [] \<or> part = ''.'' then norm_comps new_comps parts
      else if part \<noteq> ''..'' \<or> new_comps = [] \<or> last new_comps = ''..''
           then norm_comps (new_comps @ [part]) parts
           else norm_comps (butlast new_comps) parts)"

definition normpath :: "string \<Rightarrow> string" where
  "normpath p =
     (let q = join_slash (norm_comps [] (split_slash p))
      in if q = [] then ''.'' else q)"

text \<open>
  \<^verbatim>\<open>safe_join(directory, filename)\<close>: the normalised file name under the directory,
  or nothing when the name would leave the directory.
\<close>

definition safe_join :: "string \<Rightarrow> string \<Rightarrow> string option" where
  "safe_join d filename =
     (let f = (if filename = [] then [] else normpath filename)
      in if take 1 f = ''/'' \<or> f = ''..'' \<or> take 3 f = ''../'' then None
         else Some (d @ ''/'' @ f))"

text \<open>
  \<^verbatim>\<open>send_static_file(filename)\<close> answers with the file of that name in the static
  folder, and raises \<^verbatim>\<open>NotFound\<close> when the name is unsafe or no regular file has it.
  The answers to conditional and range requests (304, 206) are not modelled.
\<close>

definition send_static_file :: "env \<Rightarrow> flask_app \<Rightarrow> string \<Rightarrow> exn + response" where
  "send_static_file e app filename =
     (case static_folder app of
        None \<Rightarrow> Inl RuntimeError
      | Some d \<Rightarrow>
          (case safe_join d filename of
             None \<Rightarrow> Inl NotFound
           | Some p \<Rightarrow>
               (case files e p of
                  None \<Rightarrow> Inl NotFound
                | Some c \<Rightarrow> Inr \<lparr>status = 200, mimetype = guess_type e p, body = c\<rparr>)))"

text \<open>
  Matching a path against a rule, for the two shapes of rule this application has: a
  rule without a converter matches the equal path; a rule that ends in a
  \<^verbatim>\<open><path:...>\<close> converter matches a path that extends the text before the converter
  by a non-empty rest not starting with a slash, and passes the rest as the argument.
  A request path is the path of an HTTP request target and begins with a slash.
\<close>

definition match_rule :: "string \<Rightarrow> string \<Rightarrow> string list option" where
  "match_rule rl p =
     (let lit = takeWhile (\<lambda>c. c \<noteq> CHR ''<'') rl;
          rest = drop (length lit) p
      in if length lit = length rl then (if p = rl then Some [] else None)
         else if take (length lit) p = lit \<and> rest \<noteq> [] \<and> take 1 rest \<noteq> ''/''
              then Some [rest] else None)"

fun matching_rules :: "url_rule list \<Rightarrow> string \<Rightarrow> (url_rule \<times> string list) list" where
  "matching_rules [] p = []"
| "matching_rules (rl # rls) p =
     (case match_rule (rule_str rl) p of
        None \<Rightarrow> matching_rules rls p
      | Some args \<Rightarrow> (rl, args) # matching_rules rls p)"

text \<open>
  The router replaces doubled slashes by single ones, from the left and without
  overlap (the substitution of \<^verbatim>\<open>/\<close> for the pattern \<^verbatim>\<open>/{2,}?\<close>), when the path as
  it arrived matched nothing.
\<close>

fun merge_slashes :: "string \<Rightarrow> string" where
  "merge_slashes (a # b # cs) =
     (if a = CHR ''/'' \<and> b = CHR ''/'' then CHR ''/'' # merge_slashes cs
      else a # merge_slashes (b # cs))"
| "merge_slashes cs = cs"

definition allowed_matches ::
  "flask_app \<Rightarrow> string \<Rightarrow> string \<Rightarrow> (url_rule \<times> string list) list" where
  "allowed_matches app m p =
     filter (\<lambda>x. m \<in> set (methods (fst x))) (matching_rules (url_map app) p)"

text \<open>
  The router: the first rule that matches path and method. When there is none, the path
  with its slashes merged is tried, and a rule matching that path and the method makes
  the router raise \<^verbatim>\<open>RequestRedirect\<close> to the merged path. Otherwise it raises
  \<^verbatim>\<open>MethodNotAllowed\<close> when rules matched a path but not the method, and
  \<^verbatim>\<open>NotFound\<close> when no rule matched.
\<close>

definition match_request :: "flask_app \<Rightarrow> request \<Rightarrow> exn + (string \<times> string list)" where
  "match_request app rq =
     (case allowed_matches app (http_method rq) (path rq) of
        m # _ \<Rightarrow> Inr (endpoint (fst m), snd m)
      | [] \<Rightarrow>
          (case allowed_matches app (http_method rq) (merge_slashes (path rq)) of
             m # _ \<Rightarrow> Inl (RequestRedirect (merge_slashes (path rq)))
           | [] \<Rightarrow>
               if matching_rules (url_map app) (path rq) = [] \<and>
                  matching_rules (url_map app) (merge_slashes (path rq)) = []
               then Inl NotFound else Inl MethodNotAllowed))"

definition html_response :: "string \<Rightarrow> response" where
  "html_response s = \<lparr>status = 200, mimetype = ''text/html'', body = s\<rparr>"

definition error_response :: "env \<Rightarrow> nat \<Rightarrow> response" where
  "error_response e code = \<lparr>status = code, mimetype = ''text/html'', body = error_page e code\<rparr>"

text \<open>
  An exception of the router or of a view: an HTTP exception becomes the response with
  its own code (the redirect, 308, names the new path in a header that the response
  record does not hold), any other exception becomes the response 500 (Internal Server
  Error).
\<close>

fun handle_user_exception :: "env \<Rightarrow> exn \<Rightarrow> response" where
  "handle_user_exception e NotFound = error_response e 404"
| "handle_user_exception e MethodNotAllowed = error_response e 405"
| "handle_user_exception e (RequestRedirect p) = error_response e 308"
| "handle_user_exception e ex = error_response e 500"

subsection \<open>The module\<close>

text \<open>
  \<^verbatim>\<open>index\<close> takes no parameter and its body is the single statement
  \<^verbatim>\<open>return render_template('index.html')\<close>: no keyword argument is passed, nothing is
  caught. The application and the request are the ambient context of the call, which
  \<^verbatim>\<open>render_template\<close> reads; \<^verbatim>\<open>index\<close> itself names neither.
\<close>

definition index :: "env \<Rightarrow> flask_app \<Rightarrow> request \<Rightarrow> exn + string" where
  "index e app rq = render_template e app rq ''index.html'' []"

text \<open>
  \<open>index\<close> is the value the call returns or raises; \<open>index_writes\<close> is the state the
  call leaves. The body has no assignment of its own: what it writes is what its one call
  writes.
\<close>

definition index_writes :: "env \<Rightarrow> nat \<Rightarrow> request \<Rightarrow> state \<Rightarrow> state" where
  "index_writes e r rq s = render_template_writes e r rq ''index.html'' [] s"

text \<open>
  \<^verbatim>\<open>create_app\<close> has no parameter; \<open>name\<close> is the module's global \<^verbatim>\<open>__name__\<close> and
  \<open>s\<close> the state of the process in which it is called.
\<close>

definition create_app :: "string \<Rightarrow> state \<Rightarrow> exn + (nat \<times> state)" where
  "create_app name s =
     (let (app, s1) = Flask name (Some ''static'') (Some ''templates'') s
      in case route app ''/'' ''index'' View_index s1 of
           Inl ex \<Rightarrow> Inl ex
         | Inr s2 \<Rightarrow> Inr (app, s2))"

subsection \<open>Dispatching a request\<close>

text \<open>
  Calling a view function with the arguments the router extracted. A view returns its
  value and leaves the state as its body leaves it. A string returned by a view becomes
  a response with status 200 and type \<^verbatim>\<open>text/html\<close>. A call with the wrong number of
  arguments raises \<^verbatim>\<open>TypeError\<close> before the body runs. Serving a static file reads
  the disk and writes nothing.
\<close>

fun call_view ::
  "env \<Rightarrow> view_func \<Rightarrow> nat \<Rightarrow> request \<Rightarrow> string list \<Rightarrow> state \<Rightarrow> (exn + response) \<times> state" where
  "call_view e View_index r rq [] s =
     (case index e (apps s ! r) rq of
        Inl ex \<Rightarrow> (Inl ex, index_writes e r rq s)
      | Inr html \<Rightarrow> (Inr (html_response html), index_writes e r rq s))"
| "call_view e View_send_static_file r rq [filename] s =
     (send_static_file e (apps s ! r) filename, s)"
| "call_view e vf r rq args s = (Inl TypeError, s)"

definition full_dispatch_request :: "env \<Rightarrow> nat \<Rightarrow> request \<Rightarrow> state \<Rightarrow> response \<times> state" where
  "full_dispatch_request e r rq s =
     (let app = apps s ! r
      in case match_request app rq of
           Inl ex \<Rightarrow> (handle_user_exception e ex, s)
         | Inr (ep, args) \<Rightarrow>
             if http_method rq = ''OPTIONS''
             then (\<lparr>status = 200, mimetype = ''text/html'', body = []\<rparr>, s)
             else
               (case map_of (view_functions app) ep of
                  None \<Rightarrow> (error_response e 500, s)
                | Some vf \<Rightarrow>
                    (case call_view e vf r rq args s of
                       (Inl ex, s1) \<Rightarrow> (handle_user_exception e ex, s1)
                     | (Inr resp, s1) \<Rightarrow> (resp, s1))))"

text \<open>The answer to a \<^verbatim>\<open>HEAD\<close> request is sent without its body.\<close>

definition wsgi_app :: "env \<Rightarrow> nat \<Rightarrow> request \<Rightarrow> state \<Rightarrow> response \<times> state" where
  "wsgi_app e r rq s =
     (let (resp, s1) = full_dispatch_request e r rq s
      in (if http_method rq = ''HEAD'' then resp\<lparr>body := []\<rparr> else resp, s1))"

text \<open>The server loop: the requests are handled one after the other.\<close>

fun serve :: "env \<Rightarrow> nat \<Rightarrow> request list \<Rightarrow> state \<Rightarrow> response list \<times> state" where
  "serve e r [] s = ([], s)"
| "serve e r (rq # rqs) s =
     (let (resp, s1) = wsgi_app e r rq s;
          (resps, s2) = serve e r rqs s1
      in (resp # resps, s2))"

text \<open>
  \<^verbatim>\<open>app.run(host, port, debug)\<close> stores the debug flag in the application and starts
  the development server for it on the given address.
\<close>

definition run :: "nat \<Rightarrow> string \<Rightarrow> nat \<Rightarrow> bool \<Rightarrow> state \<Rightarrow> state" where
  "run r h p d s =
     s\<lparr>apps := (apps s)[r := (apps s ! r)\<lparr>debug := d\<rparr>],
       listening := Some \<lparr>srv_app = r, host = h, port = p, use_debugger = d\<rparr>\<rparr>"

text \<open>
  Executing the module's top level with \<^verbatim>\<open>__name__\<close> bound to \<open>name\<close>: the import
  and the \<^verbatim>\<open>def\<close> change nothing in the state; the guarded block runs only for
  \<^verbatim>\<open>'__main__'\<close>.
\<close>

definition run_module :: "string \<Rightarrow> state \<Rightarrow> exn + state" where
  "run_module name s =
     (if name = ''__main__''
      then (case create_app name s of
              Inl ex \<Rightarrow> Inl ex
            | Inr (app, s1) \<Rightarrow> Inr (run app ''0.0.0.0'' 5000 True s1))
      else Inr s)"

text \<open>
  The response of a freshly created application to one request: \<open>None\<close> if
  \<open>create_app\<close> raised.
\<close>

definition first_response :: "env \<Rightarrow> string \<Rightarrow> state \<Rightarrow> request \<Rightarrow> response option" where
  "first_response e name s rq =
     (case create_app name s of
        Inl ex \<Rightarrow> None
      | Inr (r, s1) \<Rightarrow> Some (fst (wsgi_app e r rq s1)))"

definition returned_app :: "exn + (nat \<times> state) \<Rightarrow> flask_app option" where
  "returned_app res = (case res of Inl ex \<Rightarrow> None | Inr (r, s) \<Rightarrow> Some (apps s ! r))"

subsection \<open>Concrete environments and requests\<close>

text \<open>
  A stand-in for the template engine, right on the templates of the examples below: the
  template that consists of the expression \<^verbatim>\<open>{{ request.full_path }}\<close> renders as the
  path and the query string of the current request; the template
  \<^verbatim>\<open>{{ config.update(DEBUG=False) }}\<close> renders as the value of the call,
  \<^verbatim>\<open>None\<close>, and clears the application's debug flag; a text without template syntax
  renders as itself and writes nothing.
\<close>

definition toy_render :: "string \<Rightarrow> template_context \<Rightarrow> exn + string" where
  "toy_render src ctx =
     Inr (if src = ''{{ request.full_path }}''
          then path (ctx_request ctx) @ ''?'' @ query_string (ctx_request ctx)
          else if src = ''{{ config.update(DEBUG=False) }}'' then ''None''
          else src)"

definition toy_writes :: "string \<Rightarrow> template_context \<Rightarrow> flask_app \<Rightarrow> flask_app" where
  "toy_writes src ctx app =
     (if src = ''{{ config.update(DEBUG=False) }}'' then app\<lparr>debug := False\<rparr> else app)"

text \<open>An environment whose disk holds the listed files.\<close>

definition disk_env :: "(string \<times> string) list \<Rightarrow> env" where
  "disk_env fs =
     \<lparr>files = map_of fs, jinja_render = toy_render,
      guess_type = (\<lambda>f. if drop (length f - 4) f = ''.css'' then ''text/css''
                         else ''application/octet-stream''),
      error_page = (\<lambda>c. ''<h1>Error</h1>''),
      template_writes = toy_writes\<rparr>"

definition get :: "string \<Rightarrow> string \<Rightarrow> request" where
  "get p q = \<lparr>http_method = ''GET'', path = p, query_string = q, headers = [], data = []\<rparr>"

subsection \<open>The object that create\_app builds\<close>

definition index_rule :: url_rule where
  "index_rule = \<lparr>rule_str = ''/'', endpoint = ''index'', methods = default_methods\<rparr>"

definition static_rule :: url_rule where
  "static_rule = \<lparr>rule_str = ''/static/<path:filename>'', endpoint = ''static'',
                   methods = default_methods\<rparr>"

definition created :: "string \<Rightarrow> flask_app" where
  "created name =
     \<lparr>import_name = name, static_folder = Some ''static'',
      static_url_path = Some ''/static'', template_folder = Some ''templates'', debug = False,
      url_map = [static_rule, index_rule],
      view_functions = [(''static'', View_send_static_file), (''index'', View_index)]\<rparr>"

text \<open>The state after the module has run as \<^verbatim>\<open>__main__\<close> in the initial state.\<close>

definition main_state :: state where
  "main_state =
     run 0 ''0.0.0.0'' 5000 True \<lparr>apps = [created ''__main__''], listening = None\<rparr>"

section \<open>Properties\<close>

subsection \<open>Auxiliary facts\<close>

lemma create_app_eq:
  "create_app name s = Inr (length (apps s), s\<lparr>apps := apps s @ [created name]\<rparr>)"
  by (simp add: create_app_def Flask_def route_def add_url_rule_def basename_def
      created_def static_rule_def index_rule_def Let_def)

lemma returned_created: "returned_app (create_app name s) = Some (created name)"
  by (simp add: create_app_eq returned_app_def)

lemma match_rule_plain: "match_rule ''/'' p = (if p = ''/'' then Some [] else None)"
  by (simp add: match_rule_def)

lemma match_static_root: "match_rule ''/static/<path:filename>'' ''/'' = None"
  by (simp add: match_rule_def)

lemma match_request_root:
  "path rq = ''/'' \<Longrightarrow> http_method rq = ''GET'' \<Longrightarrow>
   match_request (created name) rq = Inr (''index'', [])"
  by (simp add: match_request_def allowed_matches_def created_def static_rule_def
      index_rule_def match_rule_plain match_static_root default_methods_def)


lemma first_response_eq:
  "first_response e name s rq =
     Some (fst (wsgi_app e (length (apps s)) rq (s\<lparr>apps := apps s @ [created name]\<rparr>)))"
  by (simp add: first_response_def create_app_eq)

text \<open>
  A \<^verbatim>\<open>GET /\<close> on the created application is answered by \<open>index\<close>: its string with
  status 200, or the error response for the exception it let through.
\<close>

lemma dispatch_root:
  assumes "apps s ! r = created name" and "http_method rq = ''GET''" and "path rq = ''/''"
  shows "fst (wsgi_app e r rq s) =
     (case render_template e (created name) rq ''index.html'' [] of
        Inl ex \<Rightarrow> handle_user_exception e ex
      | Inr html \<Rightarrow> html_response html)"
  using assms match_request_root [of rq name]
  by (simp add: wsgi_app_def full_dispatch_request_def index_def created_def split: sum.splits)

lemma first_response_root:
  assumes "http_method rq = ''GET''" and "path rq = ''/''"
  shows "first_response e name s rq =
     Some (case render_template e (created name) rq ''index.html'' [] of
             Inl ex \<Rightarrow> handle_user_exception e ex
           | Inr html \<Rightarrow> html_response html)"
  using dispatch_root [of "s\<lparr>apps := apps s @ [created name]\<rparr>" "length (apps s)" name rq e] assms
  by (simp add: first_response_eq)

text \<open>
  When rendering \<^verbatim>\<open>templates/index.html\<close> writes nothing, handling a request leaves
  the state as it was, for an application whose template folder is \<^verbatim>\<open>templates\<close>.
\<close>

lemma index_writes_id:
  assumes "template_folder (apps s ! r) = Some ''templates''"
    and "\<forall>src ctx app. files e ''templates/index.html'' = Some src \<longrightarrow>
           template_writes e src ctx app = app"
  shows "index_writes e r rq s = s"
  using assms
  by (simp add: index_writes_def render_template_writes_def split: option.splits)

lemma call_view_state:
  assumes "template_folder (apps s ! r) = Some ''templates''"
    and "\<forall>src ctx app. files e ''templates/index.html'' = Some src \<longrightarrow>
           template_writes e src ctx app = app"
  shows "snd (call_view e vf r rq args s) = s"
proof (cases vf)
  case View_index
  show ?thesis
  proof (cases args)
    case Nil
    with View_index show ?thesis
      using index_writes_id [OF assms, of rq] by (simp split: sum.splits)
  next
    case (Cons a as)
    with View_index show ?thesis by simp
  qed
next
  case View_send_static_file
  show ?thesis
  proof (cases args)
    case Nil
    with View_send_static_file show ?thesis by simp
  next
    case (Cons a as)
    with View_send_static_file show ?thesis by (cases as) simp_all
  qed
qed

lemma full_dispatch_state:
  assumes "template_folder (apps s ! r) = Some ''templates''"
    and "\<forall>src ctx app. files e ''templates/index.html'' = Some src \<longrightarrow>
           template_writes e src ctx app = app"
  shows "snd (full_dispatch_request e r rq s) = s"
proof -
  have "\<And>vf args. snd (call_view e vf r rq args s) = s"
    by (rule call_view_state [OF assms])
  then have "\<And>vf args x s1. call_view e vf r rq args s = (x, s1) \<Longrightarrow> s1 = s"
    by (metis snd_conv)
  then show ?thesis
    by (auto simp add: full_dispatch_request_def Let_def
        split: sum.splits option.splits prod.splits)
qed

lemma wsgi_app_state:
  assumes "template_folder (apps s ! r) = Some ''templates''"
    and "\<forall>src ctx app. files e ''templates/index.html'' = Some src \<longrightarrow>
           template_writes e src ctx app = app"
  shows "snd (wsgi_app e r rq s) = s"
  using full_dispatch_state [OF assms, of rq]
  by (auto simp add: wsgi_app_def split: prod.splits)

lemma serve_state:
  assumes "template_folder (apps s ! r) = Some ''templates''"
    and "\<forall>src ctx app. files e ''templates/index.html'' = Some src \<longrightarrow>
           template_writes e src ctx app = app"
  shows "snd (serve e r rqs s) = s"
proof (induction rqs)
  case Nil
  show ?case by simp
next
  case (Cons rq rqs)
  have "snd (wsgi_app e r rq s) = s" by (rule wsgi_app_state [OF assms])
  then show ?case using Cons.IH
    by (auto split: prod.splits)
qed

subsection \<open>The root route\<close>

text \<open>
  Claim C1, as amended. For every request with method \<^verbatim>\<open>GET\<close> and path \<^verbatim>\<open>/\<close>, if
  the file \<^verbatim>\<open>templates/index.html\<close> exists and the engine renders it to \<open>html\<close>, the
  application returned by \<open>create_app\<close> answers with status 200, type \<^verbatim>\<open>text/html\<close>
  and the body \<open>html\<close>. The body is as long as the rendered template is: nothing makes it
  non-empty.
\<close>

theorem index_renders:
  assumes "files e ''templates/index.html'' = Some src"
    and "jinja_render e src \<lparr>ctx_request = rq, ctx_vars = []\<rparr> = Inr html"
    and "http_method rq = ''GET''" and "path rq = ''/''"
  shows "first_response e name s rq =
           Some \<lparr>status = 200, mimetype = ''text/html'', body = html\<rparr>"
proof -
  have "render_template e (created name) rq ''index.html'' [] = Inr html"
    using assms(1,2) by (simp add: render_template_def created_def)
  then show ?thesis
    using first_response_root [OF assms(3,4), of e name s]
    by (simp add: html_response_def)
qed

theorem index_renders_witness:
  "first_response (disk_env [(''templates/index.html'', ''<h1>Climb</h1>'')]) ''app''
       init_state (get ''/'' [])
     = Some \<lparr>status = 200, mimetype = ''text/html'', body = ''<h1>Climb</h1>''\<rparr>"
  using index_renders [of "disk_env [(''templates/index.html'', ''<h1>Climb</h1>'')]"
      "''<h1>Climb</h1>''" "get ''/'' []" "''<h1>Climb</h1>''" "''app''" init_state]
  by (simp add: disk_env_def toy_render_def get_def)

text \<open>
  The claim as it was stated also promises a non-empty body. An empty
  \<^verbatim>\<open>templates/index.html\<close> exists and renders, to the empty string, and the answer is
  200 with an empty body.
\<close>

theorem empty_template_counterexample:
  "files (disk_env [(''templates/index.html'', [])]) ''templates/index.html'' = Some [] \<and>
   jinja_render (disk_env [(''templates/index.html'', [])]) []
      \<lparr>ctx_request = get ''/'' [], ctx_vars = []\<rparr> = Inr [] \<and>
   first_response (disk_env [(''templates/index.html'', [])]) ''app'' init_state (get ''/'' [])
     = Some \<lparr>status = 200, mimetype = ''text/html'', body = []\<rparr>"
  by (simp add: first_response_root render_template_def created_def html_response_def
      disk_env_def toy_render_def get_def)

text \<open>
  Claim C3. If \<^verbatim>\<open>templates/index.html\<close> is absent, \<open>index\<close> ends with the exception
  \<^verbatim>\<open>TemplateNotFound\<close>, which it does not catch, and every \<^verbatim>\<open>GET /\<close> is answered by
  the framework's error response with status 500.
\<close>

theorem missing_template_500:
  assumes "files e ''templates/index.html'' = None"
    and "http_method rq = ''GET''" and "path rq = ''/''"
  shows "\<exists>app. returned_app (create_app name s) = Some app \<and>
           index e app rq = Inl (TemplateNotFound ''index.html'') \<and>
           first_response e name s rq = Some (error_response e 500) \<and>
           status (error_response e 500) = 500"
proof -
  have "render_template e (created name) rq ''index.html'' []
          = Inl (TemplateNotFound ''index.html'')"
    using assms(1) by (simp add: render_template_def created_def)
  then show ?thesis
    using first_response_root [OF assms(2,3), of e name s]
    by (simp add: returned_created index_def error_response_def)
qed

theorem missing_template_500_witness:
  "files (disk_env []) ''templates/index.html'' = None \<and>
   map_option status (first_response (disk_env []) ''app'' init_state (get ''/'' [])) = Some 500"
  using missing_template_500 [of "disk_env []" "get ''/'' []" "''app''" init_state]
  by (auto simp add: disk_env_def get_def error_response_def)

text \<open>
  Claim C9, as amended. Two \<^verbatim>\<open>GET /\<close> requests get the same response, whatever their
  headers, query strings and bodies, provided the rendering of \<^verbatim>\<open>index.html\<close> depends
  only on the variables passed to the template, of which \<open>index\<close> passes none. The
  framework puts the current request into the context of every template, so a template
  may read it.
\<close>

theorem index_ignores_request:
  assumes "\<forall>src c1 c2. files e ''templates/index.html'' = Some src \<longrightarrow>
             ctx_vars c1 = ctx_vars c2 \<longrightarrow> jinja_render e src c1 = jinja_render e src c2"
    and "http_method rq1 = ''GET''" and "path rq1 = ''/''"
    and "http_method rq2 = ''GET''" and "path rq2 = ''/''"
  shows "first_response e name s rq1 = first_response e name s rq2"
proof -
  have "render_template e (created name) rq1 ''index.html'' []
      = render_template e (created name) rq2 ''index.html'' []"
    using assms(1) by (simp add: render_template_def created_def split: option.splits)
  then show ?thesis
    using first_response_root [OF assms(2,3), of e name s]
      first_response_root [OF assms(4,5), of e name s]
    by simp
qed

theorem index_ignores_request_witness:
  "first_response (disk_env [(''templates/index.html'', ''<h1>Climb</h1>'')]) ''app'' init_state
       (get ''/'' ''level=1'')
   = first_response (disk_env [(''templates/index.html'', ''<h1>Climb</h1>'')]) ''app'' init_state
       \<lparr>http_method = ''GET'', path = ''/'', query_string = ''level=2'',
         headers = [(''Cookie'', ''a=b'')], data = ''x''\<rparr>"
proof -
  have h: "\<forall>src c1 c2.
      files (disk_env [(''templates/index.html'', ''<h1>Climb</h1>'')]) ''templates/index.html''
        = Some src \<longrightarrow>
      ctx_vars c1 = ctx_vars c2 \<longrightarrow>
      jinja_render (disk_env [(''templates/index.html'', ''<h1>Climb</h1>'')]) src c1
        = jinja_render (disk_env [(''templates/index.html'', ''<h1>Climb</h1>'')]) src c2"
    by (simp add: disk_env_def toy_render_def)
  show ?thesis
    using index_ignores_request [OF h, of "get ''/'' ''level=1''"
      "\<lparr>http_method = ''GET'', path = ''/'', query_string = ''level=2'',
         headers = [(''Cookie'', ''a=b'')], data = ''x''\<rparr>" "''app''" init_state]
    by (simp add: get_def)
qed

text \<open>
  Without the proviso the claim fails: with the template \<^verbatim>\<open>{{ request.full_path }}\<close>
  in \<^verbatim>\<open>templates/index.html\<close>, the requests \<^verbatim>\<open>GET /?a\<close> and \<^verbatim>\<open>GET /?b\<close> get
  different bodies.
\<close>

theorem request_in_template_counterexample:
  "first_response (disk_env [(''templates/index.html'', ''{{ request.full_path }}'')])
       ''app'' init_state (get ''/'' ''a'')
   \<noteq> first_response (disk_env [(''templates/index.html'', ''{{ request.full_path }}'')])
       ''app'' init_state (get ''/'' ''b'')"
  by (simp add: first_response_root render_template_def created_def html_response_def
      disk_env_def toy_render_def get_def)

subsection \<open>Other paths\<close>




subsection \<open>The factory\<close>

text \<open>
  Claim C4. In every state \<open>create_app\<close> returns an object, without raising. A second
  call returns another object and leaves the first as it was; the two have the same
  static folder, template folder, route table and view functions; and a later write to
  one of them does not change the other.
\<close>

theorem create_app_twice:
  "\<exists>r1 s1 r2 s2.
     create_app name s = Inr (r1, s1) \<and> create_app name s1 = Inr (r2, s2) \<and>
     r1 \<noteq> r2 \<and> r1 < length (apps s2) \<and> r2 < length (apps s2) \<and>
     apps s2 ! r1 = apps s1 ! r1 \<and>
     static_folder (apps s2 ! r1) = static_folder (apps s2 ! r2) \<and>
     template_folder (apps s2 ! r1) = template_folder (apps s2 ! r2) \<and>
     url_map (apps s2 ! r1) = url_map (apps s2 ! r2) \<and>
     view_functions (apps s2 ! r1) = view_functions (apps s2 ! r2) \<and>
     (\<forall>x. (apps s2)[r1 := x] ! r2 = apps s2 ! r2) \<and>
     (\<forall>x. (apps s2)[r2 := x] ! r1 = apps s2 ! r1)"
  by (simp add: create_app_eq nth_append)

text \<open>
  Claim C5, as amended. The route table of the object that \<open>create_app\<close> returns has two
  rules. One is the rule \<^verbatim>\<open>/\<close> for the endpoint \<^verbatim>\<open>index\<close>, bound to the handler
  \<open>index\<close>: it is the only rule that \<open>create_app\<close> adds to the table the constructor
  left. The other is the rule \<^verbatim>\<open>/static/<path:filename>\<close> that the constructor
  registers because a static folder is set.
\<close>

theorem route_table:
  "\<exists>app r0 s0.
     returned_app (create_app name s) = Some app \<and>
     url_map app = [static_rule, index_rule] \<and>
     view_functions app = [(''static'', View_send_static_file), (''index'', View_index)] \<and>
     Flask name (Some ''static'') (Some ''templates'') s = (r0, s0) \<and>
     url_map (apps s0 ! r0) = [static_rule] \<and>
     url_map app = url_map (apps s0 ! r0) @ [index_rule]"
  by (simp add: returned_created created_def Flask_def basename_def static_rule_def Let_def)

text \<open>The route table of the returned object has two rules, not one.\<close>

theorem route_table_counterexample:
  "map_option (length \<circ> url_map) (returned_app (create_app ''app'' init_state)) = Some 2 \<and>
   map_option (length \<circ> url_map) (returned_app (create_app ''app'' init_state)) \<noteq> Some 1"
  by (simp add: returned_created created_def)

text \<open>
  Claim C6. The object that \<open>create_app\<close> returns has the static folder \<^verbatim>\<open>static\<close> and
  the template folder \<^verbatim>\<open>templates\<close>.
\<close>

theorem asset_roots:
  "\<exists>app. returned_app (create_app name s) = Some app \<and>
     static_folder app = Some ''static'' \<and> template_folder app = Some ''templates''"
  by (simp add: returned_created created_def)

subsection \<open>The entry point\<close>

text \<open>
  Claim C7. Executed as \<^verbatim>\<open>__main__\<close>, the module calls \<open>create_app\<close> and runs the
  returned object on host \<^verbatim>\<open>0.0.0.0\<close>, port 5000, with the debug flag set.
\<close>

theorem entry_point:
  "\<exists>app s1 s2.
     create_app ''__main__'' s = Inr (app, s1) \<and>
     run_module ''__main__'' s = Inr s2 \<and>
     s2 = run app ''0.0.0.0'' 5000 True s1 \<and>
     listening s2 =
       Some \<lparr>srv_app = app, host = ''0.0.0.0'', port = 5000, use_debugger = True\<rparr> \<and>
     app < length (apps s2) \<and>
     debug (apps s2 ! app) = True"
  by (simp add: run_module_def create_app_eq run_def)

text \<open>
  Claim C10. Executed under any other name, that is, imported, the module leaves the
  state as it was: no application object is created and no server is started.
\<close>

theorem import_only:
  assumes "name \<noteq> ''__main__''"
  shows "run_module name s = Inr s"
  using assms by (simp add: run_module_def)

theorem import_only_witness:
  "''flask_app.app'' \<noteq> ''__main__'' \<and>
   run_module ''flask_app.app'' init_state = Inr init_state \<and>
   apps init_state = [] \<and> listening init_state = None"
  using import_only [of "''flask_app.app''" init_state]
  by (simp add: init_state_def)

text \<open>
  Claim C8, as amended. Handling any sequence of requests leaves the state of the process
  as it was (the application that \<open>create_app\<close> returned, with its folders, route table
  and debug flag, and the server's host and port), provided rendering
  \<^verbatim>\<open>templates/index.html\<close> writes nothing to the application. This holds for the
  application as \<open>create_app\<close> returned it and after \<open>run\<close> has started it.
\<close>

theorem serve_keeps_configuration:
  assumes "\<forall>src ctx app. files e ''templates/index.html'' = Some src \<longrightarrow>
             template_writes e src ctx app = app"
  shows "\<exists>r s1. create_app name s = Inr (r, s1) \<and>
           snd (serve e r rqs s1) = s1 \<and>
           snd (serve e r rqs (run r h p d s1)) = run r h p d s1"
proof -
  let ?r = "length (apps s)"
  let ?s1 = "s\<lparr>apps := apps s @ [created name]\<rparr>"
  have t1: "template_folder (apps ?s1 ! ?r) = Some ''templates''"
    by (simp add: created_def)
  have t2: "template_folder (apps (run ?r h p d ?s1) ! ?r) = Some ''templates''"
    by (simp add: run_def created_def)
  show ?thesis
    using serve_state [OF t1 assms, of rqs] serve_state [OF t2 assms, of rqs]
    by (simp add: create_app_eq)
qed

theorem serve_keeps_configuration_witness:
  "snd (serve (disk_env [(''templates/index.html'', ''<h1>Climb</h1>'')]) 0
         [get ''/'' [], get ''/static/style.css'' [], get ''/nonexistent'' []] main_state)
     = main_state"
proof -
  have h: "\<forall>src ctx app.
      files (disk_env [(''templates/index.html'', ''<h1>Climb</h1>'')]) ''templates/index.html''
        = Some src \<longrightarrow>
      template_writes (disk_env [(''templates/index.html'', ''<h1>Climb</h1>'')]) src ctx app
        = app"
    by (simp add: disk_env_def toy_writes_def)
  show ?thesis
    using serve_keeps_configuration [OF h, of "''__main__''" init_state
        "[get ''/'' [], get ''/static/style.css'' [], get ''/nonexistent'' []]"
        "''0.0.0.0''" 5000 True]
    by (simp add: create_app_eq init_state_def main_state_def)
qed

text \<open>
  Without the proviso the claim fails. A template is handed the application's
  \<^verbatim>\<open>config\<close>: with \<^verbatim>\<open>{{ config.update(DEBUG=False) }}\<close> in
  \<^verbatim>\<open>templates/index.html\<close>, one \<^verbatim>\<open>GET /\<close> clears the debug flag that the entry
  point had set.
\<close>

theorem template_writes_config_counterexample:
  "run_module ''__main__'' init_state = Inr main_state \<and>
   debug (apps main_state ! 0) = True \<and>
   debug (apps (snd (serve
       (disk_env [(''templates/index.html'', ''{{ config.update(DEBUG=False) }}'')]) 0
       [get ''/'' []] main_state)) ! 0) = False"
  by (simp add: run_module_def create_app_eq init_state_def main_state_def run_def
      wsgi_app_def full_dispatch_request_def match_request_def allowed_matches_def
      created_def static_rule_def index_rule_def match_rule_def default_methods_def
      index_def index_writes_def render_template_def render_template_writes_def
      disk_env_def toy_render_def toy_writes_def get_def html_response_def)

end
